theory Spec2Isabelle
  imports Complex_Main
begin

section \<open>Course data\<close>

text \<open>
  One row of \<open>course_data\<close>, the table read from the spreadsheet. The fields are the
  columns that the two pages read: \<open>row['SectionID']\<close>, \<open>row['Section']\<close> (the course
  name), \<open>row['Days']\<close>, \<open>row['Time']\<close>, \<open>row['Term']\<close>, \<open>row['Price']\<close>,
  \<open>row['Credits']\<close>, \<open>row['Utility']\<close>, and the columns \<open>Course_Name\<close> and
  \<open>Instructor\<close> that the final column selection names. Numbers are exact rationals.
\<close>

record row =
  SectionID :: string
  Section :: string
  Course_Name :: string
  Instructor :: string
  Days :: string
  Time :: string
  Term :: string
  Price :: rat
  Credits :: rat
  Utility :: rat

section \<open>The pairwise conflict predicate (page 4)\<close>

text \<open>
  \<open>set(course_a['Days'])\<close> is the set of the one-character strings of \<open>Days\<close>; the
  tests \<open>'M' in days_a\<close> and \<open>'MW' in days_a\<close> are memberships of a string in that set.
\<close>

definition char_set :: "string \<Rightarrow> string set" where
  "char_set s = set (map (\<lambda>c. [c]) s)"

definition quarters :: "string list" where
  "quarters = [''Q1'', ''Q2'', ''Q3'', ''Q4'']"

definition conflicts :: "row \<Rightarrow> row \<Rightarrow> bool" where
  "conflicts course_a course_b =
     (if Time course_a \<noteq> Time course_b then False
      else if Term course_a \<noteq> Term course_b \<and>
              \<not> ((Term course_a = ''Full'' \<and> Term course_b \<in> set quarters) \<or>
                 (Term course_b = ''Full'' \<and> Term course_a \<in> set quarters))
      then False
      else
        (let days_a = char_set (Days course_a);
             days_b = char_set (Days course_b)
         in if (''M'' \<in> days_a \<and> ''M'' \<in> days_b) \<or> (''W'' \<in> days_a \<and> ''W'' \<in> days_b)
            then True
            else if ''MW'' \<in> days_a \<and> (''M'' \<in> days_b \<or> ''W'' \<in> days_b) then True
            else if ''MW'' \<in> days_b \<and> (''M'' \<in> days_a \<or> ''W'' \<in> days_a) then True
            else if (''T'' \<in> days_a \<and> ''T'' \<in> days_b) \<or> (''R'' \<in> days_a \<and> ''R'' \<in> days_b)
            then True
            else if ''TR'' \<in> days_a \<and> (''T'' \<in> days_b \<or> ''R'' \<in> days_b) then True
            else if ''TR'' \<in> days_b \<and> (''T'' \<in> days_a \<or> ''R'' \<in> days_a) then True
            else False))"

section \<open>The grouping key (page 5)\<close>

fun join :: "string \<Rightarrow> string list \<Rightarrow> string" where
  "join sep [] = []"
| "join sep [x] = x"
| "join sep (x # y # ys) = x @ sep @ join sep (y # ys)"

text \<open>\<open>'M' in row['Days']\<close> on a string is the substring test, here for one character.\<close>

definition get_group_id :: "row \<Rightarrow> string" where
  "get_group_id r =
     join ''_''
       ([Time r]
        @ (if Term r = ''Full'' then [''Full''] else [Term r])
        @ (if CHR ''M'' \<in> set (Days r) then [''M''] else [])
        @ (if CHR ''W'' \<in> set (Days r) then [''W''] else [])
        @ (if CHR ''T'' \<in> set (Days r) then [''T''] else [])
        @ (if CHR ''R'' \<in> set (Days r) then [''R''] else []))"

section \<open>The values of days and terms\<close>

text \<open>
  The terms the pages know are \<open>Full\<close> and the four quarters (the lists in \<open>conflicts\<close>),
  and the days are Monday to Thursday, written M, W, T, R (the comment in \<open>conflicts\<close>
  and the four tests of \<open>get_group_id\<close>). A section of the table meets on at least one
  of these days.
\<close>

definition valid_term :: "row \<Rightarrow> bool" where
  "valid_term r = (Term r \<in> set (''Full'' # quarters))"

definition meets_mon_to_thu :: "row \<Rightarrow> bool" where
  "meets_mon_to_thu r = list_ex (\<lambda>c. c \<in> set ''MWTR'') (Days r)"

text \<open>The part of a grouping key that follows the term: one tag per day letter.\<close>

definition day_part :: "row \<Rightarrow> string" where
  "day_part r =
     (if CHR ''M'' \<in> set (Days r) then ''_M'' else [])
     @ (if CHR ''W'' \<in> set (Days r) then ''_W'' else [])
     @ (if CHR ''T'' \<in> set (Days r) then ''_T'' else [])
     @ (if CHR ''R'' \<in> set (Days r) then ''_R'' else [])"

text \<open>A string in which every underscore is followed by a day letter.\<close>

fun tagged :: "string \<Rightarrow> bool" where
  "tagged [] = True"
| "tagged [c] = (c \<noteq> CHR ''_'')"
| "tagged (c # d # w) = ((c = CHR ''_'' \<longrightarrow> d \<in> set ''MWTR'') \<and> tagged (d # w))"

section \<open>The integer program built by the pages\<close>

text \<open>
  A variable is identified by its name. \<open>course_vars\<close> maps every \<open>SectionID\<close> of the
  table to the binary variable \<open>LpVariable(f"x_{SectionID}", cat='Binary')\<close>, so
  \<open>course_vars[row['SectionID']]\<close> is the variable named after the row's \<open>SectionID\<close>;
  rows with the same \<open>SectionID\<close> share it.
\<close>

type_synonym var = string

definition course_var :: "row \<Rightarrow> var" where
  "course_var r = ''x_'' @ SectionID r"

text \<open>
  A linear expression is the list of its terms (coefficient, variable); a constraint is
  \<open>lhs <= rhs\<close> under the name given to \<open>problem += ...\<close>.
\<close>

type_synonym expr = "(rat \<times> var) list"

record constraint =
  cname :: string
  lhs :: expr
  rhs :: rat

record problem =
  variables :: "var list"
  objective :: expr
  constraints :: "constraint list"

definition lpSum :: "var list \<Rightarrow> expr" where
  "lpSum vs = map (\<lambda>v. (1, v)) vs"

text \<open>\<open>budget = 4400 if student_year == "1st Year" else 5500\<close>\<close>

definition budget_for :: "string \<Rightarrow> rat" where
  "budget_for student_year = (if student_year = ''1st Year'' then 4400 else 5500)"

definition objective_expr :: "row list \<Rightarrow> expr" where
  "objective_expr course_data = map (\<lambda>r. (Utility r * Credits r, course_var r)) course_data"

definition budget_constraint :: "row list \<Rightarrow> rat \<Rightarrow> constraint" where
  "budget_constraint course_data budget =
     \<lparr>cname = ''BudgetConstraint'',
      lhs = map (\<lambda>r. (Price r, course_var r)) course_data,
      rhs = budget\<rparr>"

definition credit_limit_constraint :: "row list \<Rightarrow> rat \<Rightarrow> constraint" where
  "credit_limit_constraint course_data credit_limit =
     \<lparr>cname = ''CreditLimitConstraint'',
      lhs = map (\<lambda>r. (Credits r, course_var r)) course_data,
      rhs = credit_limit\<rparr>"

text \<open>Decimal text of a row index, for the names \<open>f"Conflict_{i}_{j}"\<close>.\<close>

fun str_nat :: "nat \<Rightarrow> string" where
  "str_nat n =
     (if n < 10 then [char_of (48 + n)]
      else str_nat (n div 10) @ [char_of (48 + n mod 10)])"

declare str_nat.simps [simp del]

text \<open>
  The double loop over \<open>course_data.iterrows()\<close>; the index of a row is its position.
\<close>

definition conflict_constraints :: "row list \<Rightarrow> constraint list" where
  "conflict_constraints course_data =
     concat (map (\<lambda>(i, course_a).
       concat (map (\<lambda>(j, course_b).
         if i \<ge> j then []
         else if conflicts course_a course_b
         then [\<lparr>cname = ''Conflict_'' @ str_nat i @ ''_'' @ str_nat j,
                lhs = [(1, course_var course_a), (1, course_var course_b)],
                rhs = 1\<rparr>]
         else [])
         (enumerate 0 course_data)))
       (enumerate 0 course_data))"

text \<open>
  A dictionary of lists in insertion order, and the step
  \<open>if k not in d: d[k] = []\<close>, \<open>d[k].append(v)\<close>.
\<close>

fun dict_append :: "('k \<times> 'v list) list \<Rightarrow> 'k \<Rightarrow> 'v \<Rightarrow> ('k \<times> 'v list) list" where
  "dict_append [] k v = [(k, [v])]"
| "dict_append ((k', vs) # d) k v =
     (if k' = k then (k', vs @ [v]) # d else (k', vs) # dict_append d k v)"

definition course_sections :: "row list \<Rightarrow> (string \<times> var list) list" where
  "course_sections course_data =
     foldl (\<lambda>d r. dict_append d (Section r) (course_var r)) [] course_data"

definition one_section_constraints :: "row list \<Rightarrow> constraint list" where
  "one_section_constraints course_data =
     map (\<lambda>(course_name, sections).
            \<lparr>cname = ''OneSectionPerCourse_'' @ course_name, lhs = lpSum sections, rhs = 1\<rparr>)
         (course_sections course_data)"

definition grouped_courses :: "row list \<Rightarrow> (string \<times> var list) list" where
  "grouped_courses course_data =
     foldl (\<lambda>d r. dict_append d (get_group_id r) (course_var r)) [] course_data"

definition group_constraints :: "row list \<Rightarrow> constraint list" where
  "group_constraints course_data =
     map (\<lambda>(group_id, courses).
            \<lparr>cname = ''GroupConstraint_'' @ group_id, lhs = lpSum courses, rhs = 1\<rparr>)
         (grouped_courses course_data)"

definition exclusive_courses :: "string list list" where
  "exclusive_courses = [[''MGMT6110'', ''MGMT6120''], [''COURSE_X1'', ''COURSE_X2'']]"

definition course_group_vars :: "row list \<Rightarrow> string list \<Rightarrow> var list" where
  "course_group_vars course_data course_group =
     concat (map (\<lambda>course. map course_var (filter (\<lambda>r. Section r = course) course_data))
                 course_group)"

definition exclusive_constraint :: "row list \<Rightarrow> string list \<Rightarrow> constraint" where
  "exclusive_constraint course_data course_group =
     \<lparr>cname = ''ExclusiveConstraint_'' @ join ''_'' course_group,
      lhs = lpSum (course_group_vars course_data course_group),
      rhs = 1\<rparr>"

definition exclusive_constraints :: "row list \<Rightarrow> constraint list" where
  "exclusive_constraints course_data = map (exclusive_constraint course_data) exclusive_courses"

text \<open>The problem of page 4 (pairwise conflicts), in the order the constraints are added.\<close>

definition problem_v1 :: "row list \<Rightarrow> rat \<Rightarrow> rat \<Rightarrow> problem" where
  "problem_v1 course_data budget credit_limit =
     \<lparr>variables = map course_var course_data,
      objective = objective_expr course_data,
      constraints =
        [budget_constraint course_data budget]
        @ conflict_constraints course_data
        @ one_section_constraints course_data
        @ exclusive_constraints course_data
        @ [credit_limit_constraint course_data credit_limit]\<rparr>"

text \<open>The problem of page 5 (grouped conflicts).\<close>

definition problem_v2 :: "row list \<Rightarrow> rat \<Rightarrow> rat \<Rightarrow> problem" where
  "problem_v2 course_data budget credit_limit =
     \<lparr>variables = map course_var course_data,
      objective = objective_expr course_data,
      constraints =
        [budget_constraint course_data budget]
        @ group_constraints course_data
        @ one_section_constraints course_data
        @ exclusive_constraints course_data
        @ [credit_limit_constraint course_data credit_limit]\<rparr>"

section \<open>The solver's contract\<close>

text \<open>
  \<open>problem.solve()\<close> is external. An assignment gives every variable its \<open>varValue\<close>;
  it is feasible when every variable of the problem is binary and every constraint holds,
  and optimal when no feasible assignment has a larger objective.
\<close>

type_synonym assignment = "var \<Rightarrow> rat"

definition value_of :: "assignment \<Rightarrow> expr \<Rightarrow> rat" where
  "value_of a e = sum_list (map (\<lambda>(c, v). c * a v) e)"

definition satisfies :: "assignment \<Rightarrow> constraint \<Rightarrow> bool" where
  "satisfies a c = (value_of a (lhs c) \<le> rhs c)"

definition feasible :: "assignment \<Rightarrow> problem \<Rightarrow> bool" where
  "feasible a p =
     (list_all (\<lambda>v. a v = 0 \<or> a v = 1) (variables p) \<and> list_all (satisfies a) (constraints p))"

definition optimal :: "assignment \<Rightarrow> problem \<Rightarrow> bool" where
  "optimal a p =
     (feasible a p \<and>
      (\<forall>a'. feasible a' p \<longrightarrow> value_of a' (objective p) \<le> value_of a (objective p)))"

section \<open>The result table\<close>

definition selected_courses :: "row list \<Rightarrow> assignment \<Rightarrow> string list" where
  "selected_courses course_data a =
     map SectionID (filter (\<lambda>r. a (course_var r) = 1) course_data)"

definition selected_courses_data :: "row list \<Rightarrow> assignment \<Rightarrow> row list" where
  "selected_courses_data course_data a =
     filter (\<lambda>r. SectionID r \<in> set (selected_courses course_data a)) course_data"

definition total_price :: "row list \<Rightarrow> rat" where
  "total_price sel = sum_list (map Price sel)"

definition total_credits :: "row list \<Rightarrow> rat" where
  "total_credits sel = sum_list (map Credits sel)"

definition total_weighted_utility :: "row list \<Rightarrow> rat" where
  "total_weighted_utility sel = sum_list (map (\<lambda>r. Utility r * Credits r) sel)"

text \<open>
  The result table is a pandas frame: its column labels and, per row, the cell under each
  label. A cell holds text, a number, or \<open>NaN\<close> (no value).
\<close>

datatype cell = Str string | Num rat | NaN

type_synonym series = "(string \<times> cell) list"

record dataframe =
  columns :: "string list"
  body :: "series list"

datatype error = KeyError "string list"

definition get_cell :: "series \<Rightarrow> string \<Rightarrow> cell" where
  "get_cell s c = (case map_of s c of Some v \<Rightarrow> v | None \<Rightarrow> NaN)"

definition reindex :: "string list \<Rightarrow> series \<Rightarrow> series" where
  "reindex cols s = map (\<lambda>c. (c, get_cell s c)) cols"

text \<open>
  \<open>df.append(d, ignore_index=True)\<close> for a dictionary \<open>d\<close>: labels of \<open>d\<close> that are
  not columns yet become new columns, and every row is aligned to the combined columns,
  a missing label giving \<open>NaN\<close>.
\<close>

definition df_append :: "dataframe \<Rightarrow> series \<Rightarrow> dataframe" where
  "df_append df d =
     (let cols = columns df @ filter (\<lambda>k. k \<notin> set (columns df)) (map fst d)
      in \<lparr>columns = cols, body = map (reindex cols) (body df) @ [reindex cols d]\<rparr>)"

text \<open>\<open>df[[...]]\<close>: the listed columns, or \<open>KeyError\<close> when one is not a column.\<close>

definition df_select :: "string list \<Rightarrow> dataframe \<Rightarrow> error + dataframe" where
  "df_select cols df =
     (if list_all (\<lambda>c. c \<in> set (columns df)) cols
      then Inr \<lparr>columns = cols, body = map (reindex cols) (body df)\<rparr>
      else Inl (KeyError (filter (\<lambda>c. c \<notin> set (columns df)) cols)))"

text \<open>
  The columns of \<open>course_data\<close> that the pages name. Page 5 adds a column \<open>GroupID\<close>,
  which the final column selection drops like \<open>Section\<close>, \<open>Term\<close> and \<open>Utility\<close>.
\<close>

definition course_columns :: "string list" where
  "course_columns = [''SectionID'', ''Section'', ''Course_Name'', ''Instructor'', ''Days'',
     ''Time'', ''Term'', ''Price'', ''Credits'', ''Utility'']"

definition to_series :: "row \<Rightarrow> series" where
  "to_series r =
     [(''SectionID'', Str (SectionID r)), (''Section'', Str (Section r)),
      (''Course_Name'', Str (Course_Name r)), (''Instructor'', Str (Instructor r)),
      (''Days'', Str (Days r)), (''Time'', Str (Time r)), (''Term'', Str (Term r)),
      (''Price'', Num (Price r)), (''Credits'', Num (Credits r)),
      (''Utility'', Num (Utility r))]"

text \<open>
  \<open>selected_courses_data['Weighted Utility'] = selected_courses_data['Utility'] *
  selected_courses_data['Credits']\<close>
\<close>

definition with_weighted_utility :: "row list \<Rightarrow> dataframe" where
  "with_weighted_utility sel =
     \<lparr>columns = course_columns @ [''Weighted Utility''],
      body = map (\<lambda>r. to_series r @ [(''Weighted Utility'', Num (Utility r * Credits r))]) sel\<rparr>"

text \<open>The dictionary \<open>summary_data\<close>, label by label as the page writes it.\<close>

definition summary_data :: "row list \<Rightarrow> series" where
  "summary_data sel =
     [(''SectionID'', Str ''Total''),
      (''Course Name'', Str ''''),
      (''Instructor'', Str ''''),
      (''Days'', Str ''''),
      (''Time'', Str ''''),
      (''Price'', Num (total_price sel)),
      (''Utility'', Str ''''),
      (''Credits'', Num (total_credits sel)),
      (''Weighted Utility'', Num (total_weighted_utility sel))]"

definition display_columns :: "string list" where
  "display_columns = [''SectionID'', ''Course_Name'', ''Instructor'', ''Days'', ''Time'',
     ''Price'', ''Credits'', ''Weighted Utility'']"

text \<open>The table the page displays: selection, summary row appended, columns selected.\<close>

definition result_table :: "row list \<Rightarrow> assignment \<Rightarrow> error + dataframe" where
  "result_table course_data a =
     (let sel = selected_courses_data course_data a
      in df_select display_columns (df_append (with_weighted_utility sel) (summary_data sel)))"

text \<open>A selected section as it stands in the displayed table.\<close>

definition display_row :: "row \<Rightarrow> series" where
  "display_row r =
     [(''SectionID'', Str (SectionID r)), (''Course_Name'', Str (Course_Name r)),
      (''Instructor'', Str (Instructor r)), (''Days'', Str (Days r)), (''Time'', Str (Time r)),
      (''Price'', Num (Price r)), (''Credits'', Num (Credits r)),
      (''Weighted Utility'', Num (Utility r * Credits r))]"

section \<open>Sample rows and assignments\<close>

definition sec :: "string \<Rightarrow> string \<Rightarrow> string \<Rightarrow> string \<Rightarrow> string \<Rightarrow> rat \<Rightarrow> rat \<Rightarrow> rat \<Rightarrow> row" where
  "sec sid course days time term price credits utility =
     \<lparr>SectionID = sid, Section = course, Course_Name = course, Instructor = ''Staff'',
      Days = days, Time = time, Term = term, Price = price, Credits = credits,
      Utility = utility\<rparr>"

definition full_mw :: row where
  "full_mw = sec ''A1'' ''ACCT6110'' ''MW'' ''9am'' ''Full'' 2000 1 5"

definition acct_tr :: row where
  "acct_tr = sec ''A2'' ''ACCT6110'' ''TR'' ''9am'' ''Full'' 2000 1 3"

definition q1_mw :: row where
  "q1_mw = sec ''B1'' ''FNCE6210'' ''MW'' ''9am'' ''Q1'' 1000 (1/2) 4"

definition q2_mw :: row where
  "q2_mw = sec ''C1'' ''MKTG6310'' ''MW'' ''9am'' ''Q2'' 1000 (1/2) 3"

definition bepp_wm :: row where
  "bepp_wm = sec ''A3'' ''BEPP6200'' ''WM'' ''9am'' ''Full'' 1500 1 4"

definition mon_only :: row where
  "mon_only = sec ''F1'' ''LGST6110'' ''M'' ''9am'' ''Full'' 1000 1 2"

definition tue_only :: row where
  "tue_only = sec ''H1'' ''HCMG8410'' ''T'' ''9am'' ''Full'' 1000 1 2"

definition mgmt_a :: row where
  "mgmt_a = sec ''M1'' ''MGMT6110'' ''MW'' ''noon'' ''Q1'' 1500 (1/2) 6"

definition mgmt_b :: row where
  "mgmt_b = sec ''M2'' ''MGMT6120'' ''TR'' ''noon'' ''Q1'' 1500 (1/2) 7"

definition zero_credit :: row where
  "zero_credit = sec ''Z1'' ''WHCP6160'' ''M'' ''noon'' ''Full'' 100 0 10"

definition select_all :: assignment where
  "select_all = (\<lambda>v. 1)"

definition select_none :: assignment where
  "select_none = (\<lambda>v. 0)"

definition pick_first :: assignment where
  "pick_first = (\<lambda>v. if v = ''x_A1'' then 1 else 0)"

definition pick_m2 :: assignment where
  "pick_m2 = (\<lambda>v. if v = ''x_M2'' then 1 else 0)"

section \<open>Properties of the conflict predicate\<close>

lemmas sample_defs = full_mw_def acct_tr_def q1_mw_def q2_mw_def bepp_wm_def
  mon_only_def tue_only_def mgmt_a_def mgmt_b_def zero_credit_def sec_def

lemma char_set_iff: "[c] \<in> char_set s \<longleftrightarrow> c \<in> set s"
  by (auto simp: char_set_def)

lemma char_set_two: "[c, d] \<notin> char_set s"
  by (auto simp: char_set_def)

text \<open>
  What the chain of tests amounts to: the same \<open>Time\<close>, terms equal or \<open>Full\<close> against a
  quarter, and one of the letters M, W, T, R in both \<open>Days\<close>.
\<close>

lemma conflicts_iff:
  "conflicts a b \<longleftrightarrow>
     Time a = Time b \<and>
     (Term a = Term b \<or> (Term a = ''Full'' \<and> Term b \<in> set quarters)
        \<or> (Term b = ''Full'' \<and> Term a \<in> set quarters)) \<and>
     (\<exists>d \<in> {CHR ''M'', CHR ''W'', CHR ''T'', CHR ''R''}. d \<in> set (Days a) \<and> d \<in> set (Days b))"
  unfolding conflicts_def Let_def by (auto simp: char_set_iff char_set_two)

text \<open>
  C3. The pairwise conflict predicate is symmetric: for all rows \<open>a\<close> and \<open>b\<close>,
  \<open>conflicts a b\<close> equals \<open>conflicts b a\<close>.
\<close>

theorem conflicts_symmetric: "conflicts a b = conflicts b a"
  unfolding conflicts_def Let_def by auto

text \<open>
  C4. For any two rows with identical \<open>Time\<close> and identical \<open>Days\<close>: if their terms are
  two distinct quarters, \<open>conflicts\<close> returns false; if one term is \<open>Full\<close> and the other
  is a quarter, \<open>conflicts\<close> returns true. Days are Monday to Thursday: the second half
  is for sections that meet on at least one of M, W, T, R, the only letters the day
  tests of \<open>conflicts\<close> read.
\<close>

theorem same_slot_terms:
  assumes "Time a = Time b" and "Days a = Days b"
  shows "(Term a \<in> set quarters \<and> Term b \<in> set quarters \<and> Term a \<noteq> Term b
            \<longrightarrow> \<not> conflicts a b)
       \<and> (meets_mon_to_thu a
            \<and> ((Term a = ''Full'' \<and> Term b \<in> set quarters)
               \<or> (Term b = ''Full'' \<and> Term a \<in> set quarters))
            \<longrightarrow> conflicts a b)"
  using assms by (auto simp: conflicts_iff quarters_def meets_mon_to_thu_def list_ex_iff)

theorem same_slot_terms_witness:
  "Time full_mw = Time q1_mw \<and> Days full_mw = Days q1_mw \<and> meets_mon_to_thu full_mw
   \<and> Term full_mw = ''Full'' \<and> Term q1_mw = ''Q1'' \<and> conflicts full_mw q1_mw
   \<and> Time q1_mw = Time q2_mw \<and> Days q1_mw = Days q2_mw
   \<and> Term q1_mw = ''Q1'' \<and> Term q2_mw = ''Q2'' \<and> \<not> conflicts q1_mw q2_mw"
proof -
  have t1: "Time full_mw = Time q1_mw" and d1: "Days full_mw = Days q1_mw"
    and t2: "Time q1_mw = Time q2_mw" and d2: "Days q1_mw = Days q2_mw"
    and m: "meets_mon_to_thu full_mw"
    and terms: "Term full_mw = ''Full''" "Term q1_mw = ''Q1''" "Term q2_mw = ''Q2''"
    by (simp_all add: sample_defs meets_mon_to_thu_def)
  have "conflicts full_mw q1_mw"
    using same_slot_terms [OF t1 d1] m terms by (simp add: quarters_def)
  moreover have "\<not> conflicts q1_mw q2_mw"
    using same_slot_terms [OF t2 d2] terms by (simp add: quarters_def)
  ultimately show ?thesis
    using t1 d1 t2 d2 m terms by simp
qed

text \<open>
  C10. \<open>conflicts a b\<close> is true only if the character sets of the two \<open>Days\<close> strings
  intersect. The set built from \<open>Days\<close> holds one-character strings, so the two-character
  tokens \<open>'MW'\<close> and \<open>'TR'\<close> are never members of it and the branches that test them never
  fire; two rows whose \<open>Days\<close> share no character are reported non-conflicting whatever
  their \<open>Time\<close> and \<open>Term\<close>.
\<close>

theorem conflicts_needs_shared_day:
  "''MW'' \<notin> char_set (Days a) \<and> ''TR'' \<notin> char_set (Days a)
   \<and> ''MW'' \<notin> char_set (Days b) \<and> ''TR'' \<notin> char_set (Days b)
   \<and> (conflicts a b \<longrightarrow> set (Days a) \<inter> set (Days b) \<noteq> {})
   \<and> (set (Days a) \<inter> set (Days b) = {} \<longrightarrow> \<not> conflicts a b)"
  by (auto simp: conflicts_iff char_set_two)

theorem conflicts_needs_shared_day_witness:
  "conflicts mon_only full_mw \<and> set (Days mon_only) \<inter> set (Days full_mw) \<noteq> {}
   \<and> set (Days mon_only) \<inter> set (Days tue_only) = {} \<and> \<not> conflicts mon_only tue_only"
proof -
  have h1: "conflicts mon_only full_mw"
    by (simp add: conflicts_iff sample_defs)
  have h2: "set (Days mon_only) \<inter> set (Days tue_only) = {}"
    by (simp add: sample_defs)
  have "set (Days mon_only) \<inter> set (Days full_mw) \<noteq> {}"
    using conflicts_needs_shared_day [of mon_only full_mw] h1 by blast
  moreover have "\<not> conflicts mon_only tue_only"
    using conflicts_needs_shared_day [of mon_only tue_only] h2 by blast
  ultimately show ?thesis
    using h1 h2 by blast
qed

section \<open>Evaluating expressions under a binary assignment\<close>

lemma value_of_Nil: "value_of a [] = 0"
  by (simp add: value_of_def)

lemma value_of_Cons: "value_of a ((c, v) # e) = c * a v + value_of a e"
  by (simp add: value_of_def)

lemma value_of_append: "value_of a (e @ e') = value_of a e + value_of a e'"
  by (simp add: value_of_def)

lemma value_of_binary:
  "\<forall>r \<in> set rs. a (course_var r) = 0 \<or> a (course_var r) = 1 \<Longrightarrow>
   value_of a (map (\<lambda>r. (f r, course_var r)) rs) =
   sum_list (map f (filter (\<lambda>r. a (course_var r) = 1) rs))"
  by (induction rs) (auto simp: value_of_Nil value_of_Cons)

lemma value_of_lpSum: "value_of a (lpSum vs) = sum_list (map a vs)"
  by (induction vs) (simp_all add: lpSum_def value_of_Nil value_of_Cons)

lemma lpSum_append: "lpSum (vs @ ws) = lpSum vs @ lpSum ws"
  by (simp add: lpSum_def)

lemma sum_list_binary:
  "\<forall>v \<in> set vs. a v = 0 \<or> a v = (1::rat) \<Longrightarrow>
   sum_list (map a vs) = of_nat (length (filter (\<lambda>v. a v = 1) vs))"
  by (induction vs) auto

lemma count_selected:
  assumes bin: "\<forall>r \<in> set rs. a (course_var r) = 0 \<or> a (course_var r) = 1"
  shows "value_of a (lpSum (map course_var (filter P rs)))
           = of_nat (length (filter (\<lambda>r. P r \<and> a (course_var r) = 1) rs))"
proof -
  have "\<forall>v \<in> set (map course_var (filter P rs)). a v = 0 \<or> a v = 1"
    using bin by auto
  then have "value_of a (lpSum (map course_var (filter P rs)))
               = of_nat (length (filter (\<lambda>v. a v = 1) (map course_var (filter P rs))))"
    by (simp add: value_of_lpSum sum_list_binary)
  also have "length (filter (\<lambda>v. a v = 1) (map course_var (filter P rs)))
               = length (filter (\<lambda>r. P r \<and> a (course_var r) = 1) rs)"
    by (simp add: filter_map o_def conj_commute)
  finally show ?thesis .
qed

lemma length_filter_two:
  "c1 \<noteq> c2 \<Longrightarrow>
   length (filter (\<lambda>r. (f r = c1 \<or> f r = c2) \<and> P r) xs)
     = length (filter (\<lambda>r. f r = c1 \<and> P r) xs) + length (filter (\<lambda>r. f r = c2 \<and> P r) xs)"
  by (induction xs) auto

section \<open>The selection read back from the solver\<close>

text \<open>
  \<open>isin(selected_courses)\<close> keeps exactly the rows whose own variable has value 1: rows
  with the same \<open>SectionID\<close> share their variable.
\<close>

lemma selected_courses_data_filter:
  "selected_courses_data rs a = filter (\<lambda>r. a (course_var r) = 1) rs"
proof -
  have "\<And>r. r \<in> set rs \<Longrightarrow>
          (SectionID r \<in> set (selected_courses rs a)) = (a (course_var r) = 1)"
    by (auto simp: selected_courses_def course_var_def)
  then show ?thesis
    unfolding selected_courses_data_def by (auto intro: filter_cong)
qed

section \<open>The dictionaries of variable lists\<close>

lemma dict_append_keys:
  "map fst (dict_append d k v) = (if k \<in> set (map fst d) then map fst d else map fst d @ [k])"
  by (induction d k v rule: dict_append.induct) auto

lemma dict_append_distinct:
  "distinct (map fst d) \<Longrightarrow> distinct (map fst (dict_append d k v))"
  by (simp add: dict_append_keys)

lemma map_of_dict_append:
  "map_of (dict_append d k v) k' =
     (if k' = k then Some ((case map_of d k of None \<Rightarrow> [] | Some vs \<Rightarrow> vs) @ [v])
      else map_of d k')"
  by (induction d k v rule: dict_append.induct) auto

lemma foldl_dict_append_distinct:
  "distinct (map fst d) \<Longrightarrow>
   distinct (map fst (foldl (\<lambda>d r. dict_append d (key r) (val r)) d rs))"
  by (induction rs arbitrary: d) (simp_all add: dict_append_distinct)

lemma map_of_foldl_dict_append:
  "map_of (foldl (\<lambda>d r. dict_append d (key r) (val r)) d rs) k =
     (if (\<exists>r \<in> set rs. key r = k) \<or> map_of d k \<noteq> None
      then Some ((case map_of d k of None \<Rightarrow> [] | Some vs \<Rightarrow> vs)
                 @ map val (filter (\<lambda>r. key r = k) rs))
      else None)"
proof (induction rs arbitrary: d)
  case Nil
  then show ?case by (auto split: option.splits)
next
  case (Cons r rs)
  show ?case
    by (simp add: Cons.IH map_of_dict_append split: option.splits)
qed

text \<open>Every key of the table has its entry: the variables of the rows with that key.\<close>

lemma dict_has_entry:
  assumes "r \<in> set rs"
  shows "(key r, map val (filter (\<lambda>r'. key r' = key r) rs))
           \<in> set (foldl (\<lambda>d r. dict_append d (key r) (val r)) [] rs)"
proof -
  have "map_of (foldl (\<lambda>d r. dict_append d (key r) (val r)) [] rs) (key r)
          = Some (map val (filter (\<lambda>r'. key r' = key r) rs))"
    using assms by (auto simp: map_of_foldl_dict_append)
  then show ?thesis
    by (rule map_of_SomeD)
qed

text \<open>Every entry of the table holds the variables of the rows with its key.\<close>

lemma dict_entry:
  assumes "(k, vs) \<in> set (foldl (\<lambda>d r. dict_append d (key r) (val r)) [] rs)"
  shows "vs = map val (filter (\<lambda>r. key r = k) rs)"
proof -
  let ?d = "foldl (\<lambda>d r. dict_append d (key r) (val r)) [] rs"
  have "distinct (map fst ?d)"
    by (rule foldl_dict_append_distinct) simp
  with assms have "map_of ?d k = Some vs"
    by simp
  then show ?thesis
    by (simp add: map_of_foldl_dict_append split: if_splits)
qed

section \<open>What a feasible assignment satisfies\<close>

lemma feasible_cases:
  assumes "feasible a (problem_v1 rs b cl) \<or> feasible a (problem_v2 rs b cl)"
  shows "\<forall>r \<in> set rs. a (course_var r) = 0 \<or> a (course_var r) = 1"
    and "satisfies a (budget_constraint rs b)"
    and "satisfies a (credit_limit_constraint rs cl)"
    and "list_all (satisfies a) (one_section_constraints rs)"
    and "list_all (satisfies a) (exclusive_constraints rs)"
  using assms by (auto simp: feasible_def problem_v1_def problem_v2_def list_all_iff)

lemma enumerate_one: "enumerate 0 [x] = [(0, x)]"
  by (simp add: enumerate_simps)

lemma enumerate_two: "enumerate 0 [x, y] = [(0, x), (1, y)]"
  by (simp add: enumerate_simps)

lemma conflict_constraints_single: "conflict_constraints [x] = []"
  by (simp add: conflict_constraints_def enumerate_one)

lemma conflict_constraints_pair:
  "conflicts x y \<Longrightarrow> conflict_constraints [x, y] =
     [\<lparr>cname = ''Conflict_'' @ str_nat 0 @ ''_'' @ str_nat 1,
       lhs = [(1, course_var x), (1, course_var y)], rhs = 1\<rparr>]"
  by (simp add: conflict_constraints_def enumerate_two)

lemma conflict_constraints_pair_none:
  "\<not> conflicts x y \<Longrightarrow> conflict_constraints [x, y] = []"
  by (simp add: conflict_constraints_def enumerate_two)

lemmas build_defs = budget_constraint_def credit_limit_constraint_def
  one_section_constraints_def course_sections_def exclusive_constraints_def
  exclusive_constraint_def exclusive_courses_def course_group_vars_def lpSum_def
  objective_expr_def course_var_def

lemma full_q1_conflict: "conflicts full_mw q1_mw"
  by (simp add: conflicts_iff sample_defs quarters_def)

lemma same_course_no_conflict: "\<not> conflicts full_mw acct_tr"
  by (simp add: conflicts_iff sample_defs)

lemma mgmt_no_conflict: "\<not> conflicts mgmt_a mgmt_b"
  by (simp add: conflicts_iff sample_defs)

lemma sample_feasible_v1: "feasible pick_first (problem_v1 [full_mw, q1_mw] 4400 4)"
  unfolding feasible_def problem_v1_def conflict_constraints_pair [OF full_q1_conflict]
  by (simp add: build_defs satisfies_def value_of_def pick_first_def sample_defs)

lemma same_course_feasible: "feasible pick_first (problem_v1 [full_mw, acct_tr] 4400 4)"
  unfolding feasible_def problem_v1_def conflict_constraints_pair_none [OF same_course_no_conflict]
  by (simp add: build_defs satisfies_def value_of_def pick_first_def sample_defs)

lemma mgmt_feasible: "feasible pick_m2 (problem_v1 [mgmt_a, mgmt_b] 4400 4)"
  unfolding feasible_def problem_v1_def conflict_constraints_pair_none [OF mgmt_no_conflict]
  by (simp add: build_defs satisfies_def value_of_def pick_m2_def sample_defs)

section \<open>Invariants of every feasible assignment\<close>

text \<open>
  C1. For every feasible assignment of the problem a page builds, the sum of \<open>Price\<close>
  over the selected sections (the rows whose variable has value 1) is at most the budget
  the problem was built with, which is 4400 for \<open>1st Year\<close> and 5500 for \<open>2nd Year\<close>.
\<close>

theorem budget_invariant:
  assumes "feasible a (problem_v1 course_data (budget_for student_year) credit_limit)
           \<or> feasible a (problem_v2 course_data (budget_for student_year) credit_limit)"
  shows "total_price (selected_courses_data course_data a) \<le> budget_for student_year
         \<and> budget_for ''1st Year'' = 4400 \<and> budget_for ''2nd Year'' = 5500"
proof -
  have "value_of a (map (\<lambda>r. (Price r, course_var r)) course_data) \<le> budget_for student_year"
    using feasible_cases(2) [OF assms] by (simp add: satisfies_def budget_constraint_def)
  then have "total_price (selected_courses_data course_data a) \<le> budget_for student_year"
    using value_of_binary [OF feasible_cases(1) [OF assms], of Price]
    by (simp add: total_price_def selected_courses_data_filter)
  then show ?thesis
    by (simp add: budget_for_def)
qed

theorem budget_invariant_witness:
  "feasible pick_first (problem_v1 [full_mw, q1_mw] (budget_for ''1st Year'') 4)
   \<and> total_price (selected_courses_data [full_mw, q1_mw] pick_first) \<le> budget_for ''1st Year''"
proof -
  have h: "feasible pick_first (problem_v1 [full_mw, q1_mw] (budget_for ''1st Year'') 4)"
    using sample_feasible_v1 by (simp add: budget_for_def)
  have "total_price (selected_courses_data [full_mw, q1_mw] pick_first) \<le> budget_for ''1st Year''"
    using budget_invariant [OF disjI1 [OF h]] by (rule conjunct1)
  with h show ?thesis ..
qed

text \<open>
  C2. In every feasible assignment, for every course name (the \<open>Section\<close> column), at
  most one row bearing that course name has its variable equal to 1.
\<close>

theorem one_section_per_course:
  assumes feas: "feasible a (problem_v1 course_data budget credit_limit)
                 \<or> feasible a (problem_v2 course_data budget credit_limit)"
  shows "length (filter (\<lambda>r. Section r = course_name \<and> a (course_var r) = 1) course_data) \<le> 1"
proof (cases "\<exists>r \<in> set course_data. Section r = course_name")
  case False
  then have "filter (\<lambda>r. Section r = course_name \<and> a (course_var r) = 1) course_data = []"
    by (auto simp: filter_empty_conv)
  then show ?thesis by simp
next
  case True
  then obtain r where r: "r \<in> set course_data" "Section r = course_name" by blast
  let ?vs = "map course_var (filter (\<lambda>r'. Section r' = course_name) course_data)"
  let ?c = "\<lparr>cname = ''OneSectionPerCourse_'' @ course_name, lhs = lpSum ?vs, rhs = 1\<rparr>"
  have "(course_name, ?vs) \<in> set (course_sections course_data)"
    using dict_has_entry [OF r(1), of Section course_var] r(2)
    by (simp add: course_sections_def)
  then have "?c \<in> set (one_section_constraints course_data)"
    unfolding one_section_constraints_def by force
  then have "satisfies a ?c"
    using feasible_cases(4) [OF feas] by (simp add: list_all_iff)
  then have "value_of a (lpSum ?vs) \<le> 1"
    by (simp add: satisfies_def)
  then have "(of_nat (length (filter (\<lambda>r. Section r = course_name \<and> a (course_var r) = 1)
                course_data)) :: rat) \<le> of_nat 1"
    by (simp add: count_selected [OF feasible_cases(1) [OF feas]])
  then show ?thesis
    by (simp only: of_nat_le_iff)
qed

theorem one_section_per_course_witness:
  "feasible pick_first (problem_v1 [full_mw, acct_tr] 4400 4)
   \<and> length (filter (\<lambda>r. Section r = ''ACCT6110'' \<and> pick_first (course_var r) = 1)
               [full_mw, acct_tr]) \<le> 1"
proof -
  have "length (filter (\<lambda>r. Section r = ''ACCT6110'' \<and> pick_first (course_var r) = 1)
               [full_mw, acct_tr]) \<le> 1"
    by (rule one_section_per_course [OF disjI1 [OF same_course_feasible]])
  with same_course_feasible show ?thesis ..
qed

section \<open>The exclusivity groups\<close>

lemma course_group_vars_two:
  "course_group_vars rs [c1, c2]
     = map course_var (filter (\<lambda>r. Section r = c1) rs)
       @ map course_var (filter (\<lambda>r. Section r = c2) rs)"
  by (simp add: course_group_vars_def)

lemma exclusive_pair_count:
  assumes bin: "\<forall>r \<in> set rs. a (course_var r) = 0 \<or> a (course_var r) = 1"
    and sat: "satisfies a (exclusive_constraint rs [c1, c2])"
    and ne: "c1 \<noteq> c2"
  shows "length (filter (\<lambda>r. (Section r = c1 \<or> Section r = c2) \<and> a (course_var r) = 1) rs) \<le> 1"
proof -
  let ?n1 = "length (filter (\<lambda>r. Section r = c1 \<and> a (course_var r) = 1) rs)"
  let ?n2 = "length (filter (\<lambda>r. Section r = c2 \<and> a (course_var r) = 1) rs)"
  have "value_of a (lpSum (course_group_vars rs [c1, c2])) \<le> 1"
    using sat by (simp add: satisfies_def exclusive_constraint_def)
  then have "value_of a (lpSum (map course_var (filter (\<lambda>r. Section r = c1) rs)))
             + value_of a (lpSum (map course_var (filter (\<lambda>r. Section r = c2) rs))) \<le> 1"
    by (simp only: course_group_vars_two lpSum_append value_of_append)
  then have "(of_nat ?n1 + of_nat ?n2 :: rat) \<le> 1"
    by (simp only: count_selected [OF bin])
  then have "(of_nat (?n1 + ?n2) :: rat) \<le> of_nat 1"
    by (simp only: of_nat_add of_nat_1)
  then have "?n1 + ?n2 \<le> 1"
    by (simp only: of_nat_le_iff)
  then show ?thesis
    by (simp only: length_filter_two [OF ne])
qed

lemma exclusive_vacuous:
  assumes "\<forall>r \<in> set rs. Section r \<notin> set g"
  shows "lhs (exclusive_constraint rs g) = []"
proof -
  have "\<And>c. c \<in> set g \<Longrightarrow> filter (\<lambda>r. Section r = c) rs = []"
    using assms by (auto simp: filter_empty_conv)
  then show ?thesis
    by (simp add: exclusive_constraint_def course_group_vars_def lpSum_def)
qed

text \<open>
  C9. The exclusivity groups are the constant \<open>[['MGMT6110', 'MGMT6120'], ['COURSE_X1',
  'COURSE_X2']]\<close> of the program, not an input. In every feasible assignment of either
  page's problem at most one row whose course name is \<open>MGMT6110\<close> or \<open>MGMT6120\<close> has
  value 1. A group none of whose course names occurs in the table still yields its
  constraint, with an empty left-hand side, which every assignment satisfies.
\<close>

theorem exclusive_groups:
  "exclusive_courses = [[''MGMT6110'', ''MGMT6120''], [''COURSE_X1'', ''COURSE_X2'']]
   \<and> (feasible a (problem_v1 course_data budget credit_limit)
        \<or> feasible a (problem_v2 course_data budget credit_limit)
      \<longrightarrow> length (filter (\<lambda>r. (Section r = ''MGMT6110'' \<or> Section r = ''MGMT6120'')
                                   \<and> a (course_var r) = 1) course_data) \<le> 1)
   \<and> (\<forall>g \<in> set exclusive_courses.
        (\<forall>r \<in> set course_data. Section r \<notin> set g) \<longrightarrow>
          exclusive_constraint course_data g
            \<in> set (constraints (problem_v1 course_data budget credit_limit))
          \<and> exclusive_constraint course_data g
            \<in> set (constraints (problem_v2 course_data budget credit_limit))
          \<and> lhs (exclusive_constraint course_data g) = []
          \<and> satisfies a' (exclusive_constraint course_data g))"
proof (intro conjI impI ballI)
  show "exclusive_courses = [[''MGMT6110'', ''MGMT6120''], [''COURSE_X1'', ''COURSE_X2'']]"
    by (simp add: exclusive_courses_def)
next
  assume feas: "feasible a (problem_v1 course_data budget credit_limit)
                \<or> feasible a (problem_v2 course_data budget credit_limit)"
  have "exclusive_constraint course_data [''MGMT6110'', ''MGMT6120'']
          \<in> set (exclusive_constraints course_data)"
    by (simp add: exclusive_constraints_def exclusive_courses_def)
  then have sat: "satisfies a (exclusive_constraint course_data [''MGMT6110'', ''MGMT6120''])"
    using feasible_cases(5) [OF feas] by (simp only: list_all_iff)
  show "length (filter (\<lambda>r. (Section r = ''MGMT6110'' \<or> Section r = ''MGMT6120'')
                              \<and> a (course_var r) = 1) course_data) \<le> 1"
    by (rule exclusive_pair_count [OF feasible_cases(1) [OF feas] sat]) simp
next
  fix g assume g: "g \<in> set exclusive_courses"
    and none: "\<forall>r \<in> set course_data. Section r \<notin> set g"
  have mem: "exclusive_constraint course_data g \<in> set (exclusive_constraints course_data)"
    using g by (simp add: exclusive_constraints_def)
  show "exclusive_constraint course_data g
          \<in> set (constraints (problem_v1 course_data budget credit_limit))"
    using mem by (simp add: problem_v1_def)
  show "exclusive_constraint course_data g
          \<in> set (constraints (problem_v2 course_data budget credit_limit))"
    using mem by (simp add: problem_v2_def)
  show empty: "lhs (exclusive_constraint course_data g) = []"
    by (rule exclusive_vacuous [OF none])
  show "satisfies a' (exclusive_constraint course_data g)"
    unfolding satisfies_def empty by (simp add: value_of_Nil exclusive_constraint_def)
qed

theorem exclusive_groups_witness:
  "feasible pick_m2 (problem_v1 [mgmt_a, mgmt_b] 4400 4)
   \<and> length (filter (\<lambda>r. (Section r = ''MGMT6110'' \<or> Section r = ''MGMT6120'')
                          \<and> pick_m2 (course_var r) = 1) [mgmt_a, mgmt_b]) \<le> 1
   \<and> [''COURSE_X1'', ''COURSE_X2''] \<in> set exclusive_courses
   \<and> Section mgmt_a \<notin> set [''COURSE_X1'', ''COURSE_X2'']
   \<and> Section mgmt_b \<notin> set [''COURSE_X1'', ''COURSE_X2'']
   \<and> lhs (exclusive_constraint [mgmt_a, mgmt_b] [''COURSE_X1'', ''COURSE_X2'']) = []
   \<and> satisfies select_all (exclusive_constraint [mgmt_a, mgmt_b] [''COURSE_X1'', ''COURSE_X2''])"
proof -
  note th = exclusive_groups [of pick_m2 "[mgmt_a, mgmt_b]" 4400 4 select_all]
  have g: "[''COURSE_X1'', ''COURSE_X2''] \<in> set exclusive_courses"
    by (simp add: exclusive_courses_def)
  have a: "Section mgmt_a \<notin> set [''COURSE_X1'', ''COURSE_X2'']"
    and b: "Section mgmt_b \<notin> set [''COURSE_X1'', ''COURSE_X2'']"
    by (simp_all add: sample_defs)
  then have none: "\<forall>r \<in> set [mgmt_a, mgmt_b]. Section r \<notin> set [''COURSE_X1'', ''COURSE_X2'']"
    by simp
  have "length (filter (\<lambda>r. (Section r = ''MGMT6110'' \<or> Section r = ''MGMT6120'')
                          \<and> pick_m2 (course_var r) = 1) [mgmt_a, mgmt_b]) \<le> 1"
    using th mgmt_feasible by blast
  moreover have "lhs (exclusive_constraint [mgmt_a, mgmt_b] [''COURSE_X1'', ''COURSE_X2'']) = []
     \<and> satisfies select_all (exclusive_constraint [mgmt_a, mgmt_b] [''COURSE_X1'', ''COURSE_X2''])"
    using th g none by blast
  ultimately show ?thesis
    using mgmt_feasible g a b by blast
qed

section \<open>The two conflict strategies\<close>

lemma join_Cons: "join sep (x # xs) = x @ concat (map (\<lambda>d. sep @ d) xs)"
  by (induction sep "x # xs" arbitrary: x xs rule: join.induct) auto

text \<open>A grouping key is the time, an underscore, the term, and the day tags.\<close>

lemma get_group_id_split: "get_group_id r = Time r @ ''_'' @ Term r @ day_part r"
  by (simp add: get_group_id_def join_Cons day_part_def)

lemma tagged_tl: "tagged (c # w) \<Longrightarrow> tagged w"
  by (cases w) simp_all

lemma tagged_split:
  "tagged (us @ CHR ''_'' # v) \<Longrightarrow> \<exists>c v'. v = c # v' \<and> c \<in> set ''MWTR''"
proof (induction us)
  case Nil
  then show ?case by (cases v) simp_all
next
  case (Cons u us)
  from Cons.prems have "tagged (us @ CHR ''_'' # v)"
    by (simp add: tagged_tl)
  then show ?case by (rule Cons.IH)
qed

lemma tagged_tail: "valid_term r \<Longrightarrow> tagged (Term r @ day_part r)"
  by (auto simp: valid_term_def quarters_def day_part_def)

lemma tail_head:
  "valid_term r \<Longrightarrow> \<exists>c v. Term r @ day_part r = c # v \<and> c \<notin> set ''MWTR''"
  by (auto simp: valid_term_def quarters_def)

text \<open>
  The time of a key is recovered from the key, whatever characters the time holds: behind
  the underscore that ends the time stands a term, and a term does not start with a day
  letter, while behind every later underscore stands a day letter.
\<close>

lemma key_prefix_inj:
  assumes va: "valid_term a" and vb: "valid_term b"
    and eq: "ta @ CHR ''_'' # (Term a @ day_part a) = tb @ CHR ''_'' # (Term b @ day_part b)"
  shows "ta = tb \<and> Term a @ day_part a = Term b @ day_part b"
proof -
  let ?wa = "Term a @ day_part a" and ?wb = "Term b @ day_part b"
  from eq obtain us where
    "(ta = tb @ us \<and> us @ CHR ''_'' # ?wa = CHR ''_'' # ?wb)
     \<or> (ta @ us = tb \<and> CHR ''_'' # ?wa = us @ CHR ''_'' # ?wb)"
    by (auto simp: append_eq_append_conv2)
  then show ?thesis
  proof
    assume h: "ta = tb @ us \<and> us @ CHR ''_'' # ?wa = CHR ''_'' # ?wb"
    show ?thesis
    proof (cases us)
      case Nil
      with h show ?thesis by simp
    next
      case (Cons u us')
      with h have "?wb = us' @ CHR ''_'' # ?wa" by simp
      with tagged_tail [OF vb] have "tagged (us' @ CHR ''_'' # ?wa)" by simp
      from tagged_split [OF this] tail_head [OF va]
      show ?thesis by auto
    qed
  next
    assume h: "ta @ us = tb \<and> CHR ''_'' # ?wa = us @ CHR ''_'' # ?wb"
    show ?thesis
    proof (cases us)
      case Nil
      with h show ?thesis by simp
    next
      case (Cons u us')
      with h have "?wa = us' @ CHR ''_'' # ?wb" by simp
      with tagged_tail [OF va] have "tagged (us' @ CHR ''_'' # ?wb)" by simp
      from tagged_split [OF this] tail_head [OF vb]
      show ?thesis by auto
    qed
  qed
qed

lemma term_of_tail:
  "valid_term r \<Longrightarrow> takeWhile (\<lambda>c. c \<noteq> CHR ''_'') (Term r @ day_part r) = Term r"
  by (auto simp: valid_term_def quarters_def day_part_def)

lemma day_part_inj:
  "day_part a = day_part b \<Longrightarrow>
   (CHR ''M'' \<in> set (Days a) \<longleftrightarrow> CHR ''M'' \<in> set (Days b))
   \<and> (CHR ''W'' \<in> set (Days a) \<longleftrightarrow> CHR ''W'' \<in> set (Days b))
   \<and> (CHR ''T'' \<in> set (Days a) \<longleftrightarrow> CHR ''T'' \<in> set (Days b))
   \<and> (CHR ''R'' \<in> set (Days a) \<longleftrightarrow> CHR ''R'' \<in> set (Days b))"
  by (simp add: day_part_def split: if_splits)

text \<open>Equal keys mean equal time, equal term and the same day letters.\<close>

lemma group_key_inj:
  assumes va: "valid_term a" and vb: "valid_term b"
    and eq: "get_group_id a = get_group_id b"
  shows "Time a = Time b \<and> Term a = Term b \<and> day_part a = day_part b"
proof -
  have "Time a @ CHR ''_'' # (Term a @ day_part a) = Time b @ CHR ''_'' # (Term b @ day_part b)"
    using eq by (simp add: get_group_id_split)
  from key_prefix_inj [OF va vb this]
  have t: "Time a = Time b" and w: "Term a @ day_part a = Term b @ day_part b"
    by simp_all
  have "Term a = Term b"
    using term_of_tail [OF va] term_of_tail [OF vb] w by simp
  with t w show ?thesis by simp
qed

lemma same_group_conflicts:
  assumes "valid_term a" "valid_term b" "meets_mon_to_thu a" "get_group_id a = get_group_id b"
  shows "conflicts a b"
proof -
  from group_key_inj [OF assms(1,2,4)]
  have "Time a = Time b" "Term a = Term b" and d: "day_part a = day_part b"
    by simp_all
  moreover from assms(3) obtain c
    where "c \<in> set (Days a)" "c \<in> {CHR ''M'', CHR ''W'', CHR ''T'', CHR ''R''}"
    by (auto simp: meets_mon_to_thu_def list_ex_iff)
  with day_part_inj [OF d]
  have "\<exists>d \<in> {CHR ''M'', CHR ''W'', CHR ''T'', CHR ''R''}. d \<in> set (Days a) \<and> d \<in> set (Days b)"
    by auto
  ultimately show ?thesis
    by (simp add: conflicts_iff)
qed

lemma cross_term_keys_differ:
  assumes "conflicts a b" "Term a \<noteq> Term b"
  shows "get_group_id a \<noteq> get_group_id b"
proof
  assume eq: "get_group_id a = get_group_id b"
  from assms have va: "valid_term a" and vb: "valid_term b"
    by (auto simp: conflicts_iff valid_term_def)
  from group_key_inj [OF va vb eq] assms(2) show False by simp
qed

text \<open>Every group constraint of page 5 sums the variables of the rows with one key.\<close>

lemma group_constraint_rows:
  assumes "c \<in> set (group_constraints course_data)"
  shows "\<exists>group_id. c = \<lparr>cname = ''GroupConstraint_'' @ group_id,
                          lhs = lpSum (map course_var
                                  (filter (\<lambda>r. get_group_id r = group_id) course_data)),
                          rhs = 1\<rparr>"
proof -
  from assms obtain group_id courses
    where e: "(group_id, courses) \<in> set (grouped_courses course_data)"
      and c: "c = \<lparr>cname = ''GroupConstraint_'' @ group_id, lhs = lpSum courses, rhs = 1\<rparr>"
    by (auto simp: group_constraints_def)
  from e have "courses = map course_var (filter (\<lambda>r. get_group_id r = group_id) course_data)"
    unfolding grouped_courses_def by (rule dict_entry)
  with c show ?thesis by blast
qed

lemma same_key_feasible_v2: "feasible select_all (problem_v2 [full_mw, q1_mw] 4400 4)"
  by (simp add: feasible_def problem_v2_def select_all_def group_constraints_def
      grouped_courses_def build_defs satisfies_def value_of_def get_group_id_def sample_defs)

lemma conflict_infeasible_v1: "\<not> feasible select_all (problem_v1 [full_mw, q1_mw] 4400 4)"
proof -
  have "\<not> satisfies select_all \<lparr>cname = ''Conflict_'' @ str_nat 0 @ ''_'' @ str_nat 1,
         lhs = [(1, course_var full_mw), (1, course_var q1_mw)], rhs = 1\<rparr>"
    by (simp add: satisfies_def value_of_def select_all_def)
  then show ?thesis
    unfolding feasible_def problem_v1_def conflict_constraints_pair [OF full_q1_conflict]
    by simp
qed

text \<open>
  C5. There are rows \<open>a\<close> and \<open>b\<close> with \<open>conflicts a b\<close> true whose grouping keys differ:
  \<open>A1\<close> and \<open>B1\<close>, with the same \<open>Time\<close> and \<open>Days\<close>, one \<open>Full\<close> and one \<open>Q1\<close>;
  selecting both is infeasible in the problem of page 4 and feasible in the problem of
  page 5. The grouped strategy is strictly less conservative than the pairwise predicate:
  for sections with a known term that meet on a day from Monday to Thursday, equal keys
  imply a pairwise conflict, and not conversely. It enforces no conflict between
  different terms: whenever two rows conflict pairwise and their terms differ (one is
  \<open>Full\<close>, the other a quarter), their keys differ, and every group constraint of page 5
  sums rows of one key only.
\<close>

theorem grouped_strictly_less_conservative:
  "(conflicts full_mw q1_mw \<and> get_group_id full_mw \<noteq> get_group_id q1_mw
      \<and> get_group_id full_mw = ''9am_Full_M_W'' \<and> get_group_id q1_mw = ''9am_Q1_M_W''
      \<and> \<not> feasible select_all (problem_v1 [full_mw, q1_mw] 4400 4)
      \<and> feasible select_all (problem_v2 [full_mw, q1_mw] 4400 4))
   \<and> (valid_term a \<and> valid_term b \<and> meets_mon_to_thu a \<and> get_group_id a = get_group_id b
        \<longrightarrow> conflicts a b)
   \<and> (conflicts a b \<and> Term a \<noteq> Term b \<longrightarrow> get_group_id a \<noteq> get_group_id b)
   \<and> (\<forall>c \<in> set (group_constraints course_data).
        \<exists>group_id. lhs c = lpSum (map course_var
                              (filter (\<lambda>r. get_group_id r = group_id) course_data))
                   \<and> rhs c = 1)"
proof (intro conjI impI ballI)
  show "conflicts full_mw q1_mw"
    by (rule full_q1_conflict)
  show "get_group_id full_mw = ''9am_Full_M_W''"
    by (simp add: get_group_id_def sample_defs)
  show "get_group_id q1_mw = ''9am_Q1_M_W''"
    by (simp add: get_group_id_def sample_defs)
  show "get_group_id full_mw \<noteq> get_group_id q1_mw"
    by (simp add: get_group_id_def sample_defs)
  show "\<not> feasible select_all (problem_v1 [full_mw, q1_mw] 4400 4)"
    by (rule conflict_infeasible_v1)
  show "feasible select_all (problem_v2 [full_mw, q1_mw] 4400 4)"
    by (rule same_key_feasible_v2)
next
  assume "valid_term a \<and> valid_term b \<and> meets_mon_to_thu a \<and> get_group_id a = get_group_id b"
  then show "conflicts a b"
    by (auto intro: same_group_conflicts)
next
  assume "conflicts a b \<and> Term a \<noteq> Term b"
  then show "get_group_id a \<noteq> get_group_id b"
    by (auto dest: cross_term_keys_differ)
next
  fix c assume "c \<in> set (group_constraints course_data)"
  from group_constraint_rows [OF this]
  show "\<exists>group_id. lhs c = lpSum (map course_var
                              (filter (\<lambda>r. get_group_id r = group_id) course_data))
                   \<and> rhs c = 1"
    by auto
qed

theorem grouped_strictly_less_conservative_witness:
  "valid_term full_mw \<and> valid_term bepp_wm \<and> meets_mon_to_thu full_mw
   \<and> get_group_id full_mw = get_group_id bepp_wm \<and> conflicts full_mw bepp_wm
   \<and> conflicts full_mw q1_mw \<and> Term full_mw \<noteq> Term q1_mw
   \<and> get_group_id full_mw \<noteq> get_group_id q1_mw
   \<and> hd (group_constraints [full_mw, q1_mw, bepp_wm])
       \<in> set (group_constraints [full_mw, q1_mw, bepp_wm])
   \<and> lhs (hd (group_constraints [full_mw, q1_mw, bepp_wm]))
       = lpSum (map course_var
           (filter (\<lambda>r. get_group_id r = ''9am_Full_M_W'') [full_mw, q1_mw, bepp_wm]))
   \<and> rhs (hd (group_constraints [full_mw, q1_mw, bepp_wm])) = 1"
proof -
  have v: "valid_term full_mw" "valid_term bepp_wm" "meets_mon_to_thu full_mw"
    and k: "get_group_id full_mw = get_group_id bepp_wm"
    and t: "Term full_mw \<noteq> Term q1_mw"
    by (simp_all add: valid_term_def meets_mon_to_thu_def get_group_id_def sample_defs)
  have "group_constraints [full_mw, q1_mw, bepp_wm] \<noteq> []"
    by (simp add: group_constraints_def grouped_courses_def)
  then have h: "hd (group_constraints [full_mw, q1_mw, bepp_wm])
             \<in> set (group_constraints [full_mw, q1_mw, bepp_wm])"
    by simp
  have l: "lhs (hd (group_constraints [full_mw, q1_mw, bepp_wm]))
             = lpSum (map course_var
                 (filter (\<lambda>r. get_group_id r = ''9am_Full_M_W'') [full_mw, q1_mw, bepp_wm]))"
    by (simp add: group_constraints_def grouped_courses_def get_group_id_def lpSum_def
        sample_defs)
  note th = grouped_strictly_less_conservative [of full_mw bepp_wm "[full_mw, q1_mw, bepp_wm]"]
  have c1: "conflicts full_mw bepp_wm"
    using th v k by blast
  have r: "rhs (hd (group_constraints [full_mw, q1_mw, bepp_wm])) = 1"
    using th h by blast
  note th2 = grouped_strictly_less_conservative [of full_mw q1_mw "[full_mw, q1_mw, bepp_wm]"]
  have c2: "conflicts full_mw q1_mw" and d: "get_group_id full_mw \<noteq> get_group_id q1_mw"
    using th2 by blast+
  show ?thesis
    using v k c1 c2 t d h l r by blast
qed

section \<open>Budget and credit limit\<close>

text \<open>
  The budget of a page is one of two constants. The pages hand the budget and the credit
  limit to the problem as they are: they are the bounds of \<open>BudgetConstraint\<close>, the first
  constraint, and \<open>CreditLimitConstraint\<close>, the last one.
\<close>

lemma budget_for_values: "budget_for student_year = 4400 \<or> budget_for student_year = 5500"
  by (simp add: budget_for_def)

lemma limits_used_unchanged:
  "hd (constraints (problem_v1 course_data budget credit_limit))
       = budget_constraint course_data budget
   \<and> hd (constraints (problem_v2 course_data budget credit_limit))
       = budget_constraint course_data budget
   \<and> rhs (budget_constraint course_data budget) = budget
   \<and> last (constraints (problem_v1 course_data budget credit_limit))
       = credit_limit_constraint course_data credit_limit
   \<and> last (constraints (problem_v2 course_data budget credit_limit))
       = credit_limit_constraint course_data credit_limit
   \<and> rhs (credit_limit_constraint course_data credit_limit) = credit_limit"
  by (simp add: problem_v1_def problem_v2_def budget_constraint_def
      credit_limit_constraint_def)

text \<open>
  With the credit limit 0 and no negative \<open>Credits\<close> in the table, every section that a
  feasible assignment selects has zero credits; so nothing is selected when all sections
  have positive credits.
\<close>

lemma zero_limit_selects_zero_credit:
  assumes nonneg: "\<forall>r \<in> set course_data. 0 \<le> Credits r"
    and feas: "feasible a (problem_v1 course_data budget 0)
               \<or> feasible a (problem_v2 course_data budget 0)"
  shows "\<forall>r \<in> set (selected_courses_data course_data a). Credits r = 0"
proof -
  let ?sel = "filter (\<lambda>r. a (course_var r) = 1) course_data"
  have "value_of a (map (\<lambda>r. (Credits r, course_var r)) course_data) \<le> 0"
    using feasible_cases(3) [OF feas] by (simp add: satisfies_def credit_limit_constraint_def)
  then have le: "sum_list (map Credits ?sel) \<le> 0"
    using value_of_binary [OF feasible_cases(1) [OF feas], of Credits] by simp
  have ge: "\<And>x. x \<in> set (map Credits ?sel) \<Longrightarrow> 0 \<le> x"
    using nonneg by auto
  then have "0 \<le> sum_list (map Credits ?sel)"
    by (rule sum_list_nonneg)
  with le have "sum_list (map Credits ?sel) = 0"
    by simp
  with sum_list_nonneg_eq_0_iff [of "map Credits ?sel", OF ge]
  have "\<forall>x \<in> set (map Credits ?sel). x = 0"
    by blast
  then show ?thesis
    by (simp add: selected_courses_data_filter)
qed

lemma zero_limit_positive_credits:
  assumes pos: "\<forall>r \<in> set course_data. 0 < Credits r"
    and feas: "feasible a (problem_v1 course_data budget 0)
               \<or> feasible a (problem_v2 course_data budget 0)"
  shows "selected_courses_data course_data a = []"
proof (rule ccontr)
  assume "selected_courses_data course_data a \<noteq> []"
  then obtain r where r: "r \<in> set (selected_courses_data course_data a)"
    by (cases "selected_courses_data course_data a") auto
  have "\<forall>r \<in> set course_data. 0 \<le> Credits r"
    using pos by (auto intro: less_imp_le)
  from zero_limit_selects_zero_credit [OF this feas] r have "Credits r = 0"
    by blast
  moreover have "r \<in> set course_data"
    using r by (simp add: selected_courses_data_def)
  ultimately show False
    using pos by auto
qed

text \<open>
  A section of zero credits adds nothing to the objective and nothing to the credit sum.
  For the table that holds one such section and the credit limit 0, selecting it and
  selecting nothing are both optimal: the problem leaves the choice to the solver.
\<close>

lemma zero_credit_tie:
  "optimal select_all (problem_v1 [zero_credit] 4400 0)
   \<and> optimal select_none (problem_v1 [zero_credit] 4400 0)
   \<and> selected_courses [zero_credit] select_all = [''Z1'']
   \<and> selected_courses [zero_credit] select_none = []"
proof -
  have "feasible select_all (problem_v1 [zero_credit] 4400 0)"
    unfolding feasible_def problem_v1_def conflict_constraints_single
    by (simp add: build_defs satisfies_def value_of_def select_all_def sample_defs)
  moreover have "feasible select_none (problem_v1 [zero_credit] 4400 0)"
    unfolding feasible_def problem_v1_def conflict_constraints_single
    by (simp add: build_defs satisfies_def value_of_def select_none_def sample_defs)
  moreover have "\<And>a'. value_of a' (objective (problem_v1 [zero_credit] 4400 0)) = 0"
    by (simp add: problem_v1_def objective_expr_def value_of_def sample_defs)
  ultimately have "optimal select_all (problem_v1 [zero_credit] 4400 0)"
    and "optimal select_none (problem_v1 [zero_credit] 4400 0)"
    by (simp_all add: optimal_def)
  then show ?thesis
    by (simp add: selected_courses_def select_all_def select_none_def sample_defs)
qed

section \<open>The displayed table\<close>

lemma appended_columns:
  "columns (df_append (with_weighted_utility sel) (summary_data sel))
     = course_columns @ [''Weighted Utility'', ''Course Name'']"
  by (simp add: df_append_def with_weighted_utility_def summary_data_def course_columns_def
      Let_def)

text \<open>
  After the append, the summary row is aligned to the columns of the frame: its blank
  for the course name stands under the new label \<open>Course Name\<close>, and under the frame's
  own \<open>Course_Name\<close>, \<open>Section\<close> and \<open>Term\<close> it has no value.
\<close>

lemma appended_body:
  "body (df_append (with_weighted_utility sel) (summary_data sel))
     = map (\<lambda>r. to_series r @ [(''Weighted Utility'', Num (Utility r * Credits r)),
                                (''Course Name'', NaN)]) sel
       @ [[(''SectionID'', Str ''Total''), (''Section'', NaN), (''Course_Name'', NaN),
           (''Instructor'', Str ''''), (''Days'', Str ''''), (''Time'', Str ''''),
           (''Term'', NaN), (''Price'', Num (total_price sel)),
           (''Credits'', Num (total_credits sel)), (''Utility'', Str ''''),
           (''Weighted Utility'', Num (total_weighted_utility sel)),
           (''Course Name'', Str '''')]]"
  by (simp add: df_append_def with_weighted_utility_def summary_data_def course_columns_def
      Let_def reindex_def get_cell_def to_series_def)

text \<open>
  The displayed table, for every table and assignment: the selected rows, then exactly one
  row \<open>Total\<close> with the three sums, blank instructor, days and time, no \<open>Utility\<close>
  column, and no value under \<open>Course_Name\<close>.
\<close>

lemma result_table_eq:
  "result_table course_data a =
     Inr \<lparr>columns = display_columns,
          body = map display_row (selected_courses_data course_data a)
                 @ [[(''SectionID'', Str ''Total''), (''Course_Name'', NaN),
                     (''Instructor'', Str ''''), (''Days'', Str ''''), (''Time'', Str ''''),
                     (''Price'', Num (total_price (selected_courses_data course_data a))),
                     (''Credits'', Num (total_credits (selected_courses_data course_data a))),
                     (''Weighted Utility'',
                        Num (total_weighted_utility (selected_courses_data course_data a)))]]\<rparr>"
  unfolding result_table_def Let_def df_select_def appended_columns appended_body
  by (simp add: display_columns_def course_columns_def reindex_def get_cell_def to_series_def
      display_row_def)

lemma result_table_empty:
  "result_table [] a =
     Inr \<lparr>columns = display_columns,
          body = [[(''SectionID'', Str ''Total''), (''Course_Name'', NaN),
                   (''Instructor'', Str ''''), (''Days'', Str ''''), (''Time'', Str ''''),
                   (''Price'', Num 0), (''Credits'', Num 0), (''Weighted Utility'', Num 0)]]\<rparr>"
  unfolding result_table_eq
  by (simp add: selected_courses_data_def total_price_def total_credits_def
      total_weighted_utility_def)

text \<open>
  C8. The page appends exactly one summary row \<open>Total\<close> with the sums of \<open>Price\<close>,
  \<open>Credits\<close> and \<open>Weighted Utility\<close> over the selected sections, blank instructor, days
  and time, and no raw-utility sum, also when nothing is selected. The course name of
  that row is not blank, though: \<open>summary_data\<close> writes its blank under the label
  \<open>Course Name\<close>, while the table's column is \<open>Course_Name\<close>, so the row has no value
  (\<open>NaN\<close>) there. The table displayed for the rows \<open>A1\<close> and \<open>B1\<close> with \<open>A1\<close> selected:
\<close>

theorem summary_row_course_name_missing:
  "result_table [full_mw, q1_mw] pick_first =
     Inr \<lparr>columns = [''SectionID'', ''Course_Name'', ''Instructor'', ''Days'', ''Time'',
                      ''Price'', ''Credits'', ''Weighted Utility''],
          body = [[(''SectionID'', Str ''A1''), (''Course_Name'', Str ''ACCT6110''),
                   (''Instructor'', Str ''Staff''), (''Days'', Str ''MW''),
                   (''Time'', Str ''9am''), (''Price'', Num 2000), (''Credits'', Num 1),
                   (''Weighted Utility'', Num 5)],
                  [(''SectionID'', Str ''Total''), (''Course_Name'', NaN),
                   (''Instructor'', Str ''''), (''Days'', Str ''''), (''Time'', Str ''''),
                   (''Price'', Num 2000), (''Credits'', Num 1),
                   (''Weighted Utility'', Num 5)]]\<rparr>"
proof -
  have "selected_courses_data [full_mw, q1_mw] pick_first = [full_mw]"
    by (simp add: selected_courses_data_filter pick_first_def course_var_def sample_defs)
  then show ?thesis
    unfolding result_table_eq
    by (simp add: display_columns_def display_row_def total_price_def total_credits_def
        total_weighted_utility_def sample_defs)
qed

end
